theory Spec2Isabelle
  imports Main "HOL-Library.Sublist"
begin

section \<open>The status-notice engine of azael-site\<close>

text \<open>
  The development embeds the composable \<^verbatim>\<open>useStatusAlert\<close> and the computed properties
  of the two \<^verbatim>\<open>StatusAlert\<close> component variants that consume it.

  Conventions of the embedding:
  \<^item> a JavaScript string is a \<open>string\<close>: a list of code units, restricted to the
    code units below 256 (the Latin-1 range);
  \<^item> a \<^verbatim>\<open>Date\<close> is either an instant (milliseconds since the epoch, an integer) or
    the Invalid Date, whose time value is NaN;
  \<^item> the clock read by \<^verbatim>\<open>new Date()\<close> is the explicit argument \<open>now\<close>;
  \<^item> the host's date parser behind \<^verbatim>\<open>new Date(text)\<close> is the explicit argument
    \<open>pd\<close>: its accepted formats are implementation-defined;
  \<^item> the reactive refs of the composable and the session storage item are the fields
    of one state record, passed explicitly and returned updated.
\<close>

subsection \<open>Characters and the string primitives used by the parser\<close>

text \<open>The class \<^verbatim>\<open>\s\<close> (and the characters removed by \<^verbatim>\<open>trim\<close>) below code unit 256:
  TAB, LF, VT, FF, CR, SPACE and NBSP.\<close>

definition isSpace :: "char \<Rightarrow> bool" where
  "isSpace c = ((of_char c :: nat) \<in> {9, 10, 11, 12, 13, 32, 160})"

text \<open>The characters that \<^verbatim>\<open>.\<close> does not match: LF and CR.\<close>

definition isLineTerminator :: "char \<Rightarrow> bool" where
  "isLineTerminator c = ((of_char c :: nat) \<in> {10, 13})"

text \<open>\<^verbatim>\<open>String.prototype.trim\<close>.\<close>

definition trim :: "string \<Rightarrow> string" where
  "trim s = rev (dropWhile isSpace (rev (dropWhile isSpace s)))"

text \<open>\<^verbatim>\<open>String.prototype.toLowerCase\<close> on the Latin-1 range: A-Z and the accented
  capitals 0xC0-0xDE other than the multiplication sign 0xD7 move up by 32.\<close>

definition lowerChar :: "char \<Rightarrow> char" where
  "lowerChar c =
     (let n = (of_char c :: nat)
      in if (65 \<le> n \<and> n \<le> 90) \<or> (192 \<le> n \<and> n \<le> 222 \<and> n \<noteq> 215)
         then char_of (n + 32) else c)"

definition toLowerCase :: "string \<Rightarrow> string" where
  "toLowerCase s = map lowerChar s"

text \<open>\<^verbatim>\<open>s.split(',')\<close>: the pieces between the commas, empty pieces included; the empty
  string splits into one empty piece.\<close>

fun split_comma :: "string \<Rightarrow> string list" where
  "split_comma [] = [[]]"
| "split_comma (c # cs) =
     (if c = CHR '','' then [] # split_comma cs
      else (case split_comma cs of [] \<Rightarrow> [[c]] | x # xs \<Rightarrow> (c # x) # xs))"

text \<open>The leftmost occurrence of a literal: the text before it and the text after it.\<close>

fun findSub :: "string \<Rightarrow> string \<Rightarrow> (string \<times> string) option" where
  "findSub pat [] = (if pat = [] then Some ([], []) else None)"
| "findSub pat (c # cs) =
     (if prefix pat (c # cs) then Some ([], drop (length pat) (c # cs))
      else map_option (\<lambda>(b, a). (c # b, a)) (findSub pat cs))"

subsection \<open>Data model\<close>

datatype Date = Instant int | InvalidDate

record Label =
  label_id :: int
  name :: string
  color :: string

record StatusIssue =
  id' :: int
  number :: int
  title :: string
  body :: string
  html_url :: string
  state :: string
  labels :: "Label list"
  created_at :: string
  updated_at :: string

text \<open>An optional field of \<^verbatim>\<open>ParsedStatusInfo\<close> is \<open>None\<close> when the property was never
  assigned. A \<^verbatim>\<open>Date\<close> object is truthy also when it is the Invalid Date.\<close>

record ParsedStatusInfo =
  start :: "Date option"
  end' :: "Date option"
  expectedDown :: "string list option"
  expectedDegraded :: "string list option"
  description :: string

datatype AlertType = Maintenance | Status | Info

subsection \<open>parseIssueBody\<close>

text \<open>
  \<^verbatim>\<open>body.match(/<!--\s*([\s\S]*?)\s*-->/)\<close> and \<^verbatim>\<open>body.replace(/<!--[\s\S]*?-->\s*/, '')\<close>
  match at the same place: the leftmost \<^verbatim>\<open><!--\<close>, up to the first \<^verbatim>\<open>-->\<close> that starts
  after it (a later opener cannot match when the leftmost one has no closer). The result
  is the text before the opener, the text between opener and closer, and the text after
  the closer.
\<close>

definition commentMatch :: "string \<Rightarrow> (string \<times> string \<times> string) option" where
  "commentMatch b =
     (case findSub ''<!--'' b of
        None \<Rightarrow> None
      | Some (pre, rest) \<Rightarrow>
          (case findSub ''-->'' rest of
             None \<Rightarrow> None
           | Some (inner, post) \<Rightarrow> Some (pre, inner, post)))"

text \<open>
  \<^verbatim>\<open>\s*(.+)\<close> anchored where a key ended. The greedy \<^verbatim>\<open>\s*\<close> takes the whole run of
  white space; when a character follows, the group is the rest of that line. When the
  run reaches the end of the text, the matcher gives white space back from the right
  until \<^verbatim>\<open>.\<close> accepts a character: the group is the last character of the run that is
  not a line terminator, and there is no match when there is none.
\<close>

definition valueAfter :: "string \<Rightarrow> string option" where
  "valueAfter rest =
     (let ws = takeWhile isSpace rest; tl = dropWhile isSpace rest
      in if tl \<noteq> [] then Some (takeWhile (\<lambda>c. \<not> isLineTerminator c) tl)
         else (case dropWhile isLineTerminator (rev ws) of
                 [] \<Rightarrow> None
               | c # _ \<Rightarrow> Some [c]))"

text \<open>\<^verbatim>\<open>metadata.match(/key\s*(.+)/)[1]\<close> for a literal key (the key includes its colon):
  the leftmost position where the key and a value match.\<close>

fun keyMatch :: "string \<Rightarrow> string \<Rightarrow> string option" where
  "keyMatch key [] = None"
| "keyMatch key (c # cs) =
     (if prefix key (c # cs)
      then (case valueAfter (drop (length key) (c # cs)) of
              Some v \<Rightarrow> Some v
            | None \<Rightarrow> keyMatch key cs)
      else keyMatch key cs)"

definition parseIssueBody :: "(string \<Rightarrow> Date) \<Rightarrow> string \<Rightarrow> ParsedStatusInfo" where
  "parseIssueBody pd b =
     (case commentMatch b of
        None \<Rightarrow>
          \<lparr>start = None, end' = None, expectedDown = None, expectedDegraded = None,
           description = b\<rparr>
      | Some (pre, inner, post) \<Rightarrow>
          (let metadata = trim inner
           in \<lparr>start = map_option (\<lambda>v. pd (trim v)) (keyMatch ''start:'' metadata),
               end' = map_option (\<lambda>v. pd (trim v)) (keyMatch ''end:'' metadata),
               expectedDown =
                 map_option (\<lambda>v. map trim (split_comma (trim v)))
                   (keyMatch ''expectedDown:'' metadata),
               expectedDegraded =
                 map_option (\<lambda>v. map trim (split_comma (trim v)))
                   (keyMatch ''expectedDegraded:'' metadata),
               description = trim (pre @ dropWhile isSpace post)\<rparr>))"

subsection \<open>Schedule predicates\<close>

text \<open>A relational comparison with the Invalid Date compares with NaN and is false.\<close>

fun date_le :: "Date \<Rightarrow> Date \<Rightarrow> bool" where
  "date_le (Instant a) (Instant b) = (a \<le> b)"
| "date_le _ _ = False"

fun date_less :: "Date \<Rightarrow> Date \<Rightarrow> bool" where
  "date_less (Instant a) (Instant b) = (a < b)"
| "date_less _ _ = False"

definition isActiveSchedule :: "int \<Rightarrow> ParsedStatusInfo \<Rightarrow> bool" where
  "isActiveSchedule now parsedInfo =
     (case (start parsedInfo, end' parsedInfo) of
        (Some s, Some e) \<Rightarrow> date_le s (Instant now) \<and> date_le (Instant now) e
      | _ \<Rightarrow> True)"

definition isUpcoming :: "int \<Rightarrow> ParsedStatusInfo \<Rightarrow> bool" where
  "isUpcoming now parsedInfo =
     (case start parsedInfo of
        Some s \<Rightarrow> date_less (Instant now) s
      | None \<Rightarrow> False)"

subsection \<open>getAlertType and getAffectedServicesFromLabels\<close>

definition labelNames :: "Label list \<Rightarrow> string list" where
  "labelNames ls = map (\<lambda>l. toLowerCase (name l)) ls"

definition getAlertType :: "Label list \<Rightarrow> AlertType" where
  "getAlertType ls =
     (if ''maintenance'' \<in> set (labelNames ls) then Maintenance
      else if ''status'' \<in> set (labelNames ls) then Status
      else Info)"

definition systemLabels :: "string list" where
  "systemLabels =
     [''status'', ''maintenance'', ''bug'', ''enhancement'', ''help wanted'', ''question'']"

definition getAffectedServicesFromLabels :: "Label list \<Rightarrow> string list" where
  "getAffectedServicesFromLabels ls =
     map name (filter (\<lambda>l. toLowerCase (name l) \<notin> set systemLabels) ls)"

subsection \<open>The composable's state, dismissal and selection\<close>

text \<open>
  The four refs of \<^verbatim>\<open>useStatusAlert\<close> and the session storage item
  \<^verbatim>\<open>dismissedAlerts\<close>. The item holds the JSON text of an array of ids; the field
  holds that array, \<open>None\<close> while the item was never written. Ids are integers, which
  \<^verbatim>\<open>JSON.stringify\<close> and \<^verbatim>\<open>JSON.parse\<close> carry unchanged.
\<close>

record AlertState =
  issues :: "StatusIssue list"
  isLoading :: bool
  error :: "string option"
  isDismissed :: bool
  dismissedAlerts :: "int list option"

text \<open>\<^verbatim>\<open>JSON.parse(sessionStorage.getItem('dismissedAlerts') || '[]')\<close>.\<close>

definition storedDismissed :: "AlertState \<Rightarrow> int list" where
  "storedDismissed s = (case dismissedAlerts s of None \<Rightarrow> [] | Some d \<Rightarrow> d)"

definition dismissAlert :: "AlertState \<Rightarrow> int \<Rightarrow> AlertState" where
  "dismissAlert s issueId =
     (let d = storedDismissed s;
          s1 = (if issueId \<notin> set d then s\<lparr>dismissedAlerts := Some (d @ [issueId])\<rparr> else s)
      in s1\<lparr>isDismissed := True\<rparr>)"

definition isAlertDismissed :: "AlertState \<Rightarrow> int \<Rightarrow> bool" where
  "isAlertDismissed s issueId = (issueId \<in> set (storedDismissed s))"

definition getActiveIssue :: "AlertState \<Rightarrow> StatusIssue option" where
  "getActiveIssue s = find (\<lambda>issue. \<not> isAlertDismissed s (id' issue)) (issues s)"

definition getAllActiveIssues :: "AlertState \<Rightarrow> StatusIssue list" where
  "getAllActiveIssues s = filter (\<lambda>issue. \<not> isAlertDismissed s (id' issue)) (issues s)"

subsection \<open>fetchStatusIssues\<close>

text \<open>
  What the awaited calls of one attempt deliver. A thrown value is an \<^verbatim>\<open>Error\<close> with
  its message or something else. \<^verbatim>\<open>fetch\<close> rejects or resolves with a response, of
  which the code reads the status and, through \<^verbatim>\<open>response.json()\<close>, the payload:
  the body is no JSON text (the call rejects), or it is the JSON value \<^verbatim>\<open>null\<close>, or a
  value whose \<^verbatim>\<open>items\<close> property is missing or falsy, or a value whose \<^verbatim>\<open>items\<close> is
  an array of issue records. A truthy \<^verbatim>\<open>items\<close> of any other shape is outside the
  typed model.
\<close>

datatype Thrown = ErrorObject string | OtherValue

datatype JsonData = JsonNull | JsonWithoutItems | JsonItems "StatusIssue list"

datatype JsonOutcome = JsonRejected Thrown | JsonResolved JsonData

datatype FetchOutcome = FetchRejected Thrown | FetchResolved nat JsonOutcome

text \<open>\<^verbatim>\<open>response.ok\<close>: the status is in the range 200-299.\<close>

definition response_ok :: "nat \<Rightarrow> bool" where
  "response_ok st = (200 \<le> st \<and> st \<le> 299)"

text \<open>The decimal numeral that a template literal prints for a status code.\<close>

fun showNat :: "nat \<Rightarrow> string" where
  "showNat n =
     (if n < 10 then [char_of (48 + n)]
      else showNat (n div 10) @ [char_of (48 + n mod 10)])"

text \<open>The message of the \<^verbatim>\<open>TypeError\<close> raised by \<^verbatim>\<open>data.items\<close> when \<^verbatim>\<open>data\<close> is
  \<^verbatim>\<open>null\<close>, in the wording of V8; other engines word it differently.\<close>

definition nullItemsMessage :: string where
  "nullItemsMessage = ''Cannot read properties of null (reading 'items')''"

text \<open>The \<^verbatim>\<open>try\<close> block: the value thrown, or the list assigned to \<^verbatim>\<open>issues\<close>.\<close>

definition tryFetch :: "FetchOutcome \<Rightarrow> Thrown + StatusIssue list" where
  "tryFetch outcome =
     (case outcome of
        FetchRejected t \<Rightarrow> Inl t
      | FetchResolved st payload \<Rightarrow>
          if \<not> response_ok st then Inl (ErrorObject (''GitHub API error: '' @ showNat st))
          else (case payload of
                  JsonRejected t \<Rightarrow> Inl t
                | JsonResolved JsonNull \<Rightarrow> Inl (ErrorObject nullItemsMessage)
                | JsonResolved JsonWithoutItems \<Rightarrow> Inr []
                | JsonResolved (JsonItems items) \<Rightarrow> Inr items))"

definition fetchStatusIssues :: "AlertState \<Rightarrow> FetchOutcome \<Rightarrow> AlertState" where
  "fetchStatusIssues s outcome =
     (let s1 = s\<lparr>isLoading := True, error := None\<rparr>;
          s2 = (case tryFetch outcome of
                  Inr items \<Rightarrow> s1\<lparr>issues := items\<rparr>
                | Inl err \<Rightarrow>
                    s1\<lparr>error := Some (case err of
                                         ErrorObject m \<Rightarrow> m
                                       | OtherValue \<Rightarrow> ''Failed to fetch status'')\<rparr>)
      in s2\<lparr>isLoading := False\<rparr>)"

subsection \<open>The computed properties of the StatusAlert component\<close>

text \<open>
  The component keeps \<^verbatim>\<open>activeIssue\<close> and, in its aggregated variant,
  \<^verbatim>\<open>allStatusIssues\<close> as computed properties. A computed property caches the value of
  its getter; the getter runs at a read when there is no cached value. The two getters
  read the ref \<^verbatim>\<open>issues\<close>, which is reactive, and the session storage, which is not:
  a cached value is discarded when \<^verbatim>\<open>issues\<close> is assigned and at no other moment, so
  a dismissal does not reach a value that was already read. The record holds the state
  of the composable and the two caches, \<open>None\<close> while a property has no cached value.
\<close>

record StatusAlert =
  alert :: AlertState
  activeIssue_cache :: "StatusIssue option option"
  allStatusIssues_cache :: "StatusIssue list option"

text \<open>The getter of \<^verbatim>\<open>allStatusIssues\<close>; the getter of \<^verbatim>\<open>activeIssue\<close> is
  \<^verbatim>\<open>getActiveIssue\<close>.\<close>

definition allStatusIssues_getter :: "AlertState \<Rightarrow> StatusIssue list" where
  "allStatusIssues_getter s =
     filter (\<lambda>issue. ''status'' \<in> set (labelNames (labels issue))
                      \<and> \<not> isAlertDismissed s (id' issue)) (issues s)"

text \<open>The value that a read of the property delivers, and the component after the
  read.\<close>

definition activeIssue :: "StatusAlert \<Rightarrow> StatusIssue option" where
  "activeIssue c =
     (case activeIssue_cache c of Some v \<Rightarrow> v | None \<Rightarrow> getActiveIssue (alert c))"

definition allStatusIssues :: "StatusAlert \<Rightarrow> StatusIssue list" where
  "allStatusIssues c =
     (case allStatusIssues_cache c of
        Some v \<Rightarrow> v
      | None \<Rightarrow> allStatusIssues_getter (alert c))"

definition read_activeIssue :: "StatusAlert \<Rightarrow> StatusAlert" where
  "read_activeIssue c = c\<lparr>activeIssue_cache := Some (activeIssue c)\<rparr>"

definition read_allStatusIssues :: "StatusAlert \<Rightarrow> StatusAlert" where
  "read_allStatusIssues c = c\<lparr>allStatusIssues_cache := Some (allStatusIssues c)\<rparr>"

text \<open>
  What happens to a component: it is set up around a state of the composable, with
  nothing cached; an attempt to fetch completes, and the caches are discarded when it
  assigned \<^verbatim>\<open>issues\<close>; an alert is dismissed, which leaves the caches alone.
\<close>

definition mount :: "AlertState \<Rightarrow> StatusAlert" where
  "mount s = \<lparr>alert = s, activeIssue_cache = None, allStatusIssues_cache = None\<rparr>"

definition fetched :: "StatusAlert \<Rightarrow> FetchOutcome \<Rightarrow> StatusAlert" where
  "fetched c outcome =
     (case tryFetch outcome of
        Inr items \<Rightarrow>
          \<lparr>alert = fetchStatusIssues (alert c) outcome,
           activeIssue_cache = None, allStatusIssues_cache = None\<rparr>
      | Inl err \<Rightarrow> c\<lparr>alert := fetchStatusIssues (alert c) outcome\<rparr>)"

definition dismissed :: "StatusAlert \<Rightarrow> int \<Rightarrow> StatusAlert" where
  "dismissed c issueId = c\<lparr>alert := dismissAlert (alert c) issueId\<rparr>"

inductive reachable :: "StatusAlert \<Rightarrow> bool" where
  mount: "reachable (mount s)"
| read_activeIssue: "reachable c \<Longrightarrow> reachable (read_activeIssue c)"
| read_allStatusIssues: "reachable c \<Longrightarrow> reachable (read_allStatusIssues c)"
| fetched: "reachable c \<Longrightarrow> reachable (fetched c outcome)"
| dismissed: "reachable c \<Longrightarrow> reachable (dismissed c issueId)"

text \<open>The other computed properties read only computed properties and the fields
  of what these hold, so their value is a function of the values above. Both variants
  parse the body of the active issue (\<^verbatim>\<open>body || ''\<close> is the body itself when the body
  is a string, as the interface declares).\<close>

definition parsedInfo :: "(string \<Rightarrow> Date) \<Rightarrow> StatusAlert \<Rightarrow> ParsedStatusInfo option" where
  "parsedInfo pd c = map_option (\<lambda>issue. parseIssueBody pd (body issue)) (activeIssue c)"

text \<open>The single-issue variant: \<^verbatim>\<open>alertType\<close> is the type of the active issue.\<close>

definition alertType_single :: "StatusAlert \<Rightarrow> AlertType" where
  "alertType_single c =
     (case activeIssue c of None \<Rightarrow> Info | Some issue \<Rightarrow> getAlertType (labels issue))"

text \<open>The aggregated variant: \<^verbatim>\<open>alertType\<close> is \<^verbatim>\<open>status\<close> as soon as
  \<^verbatim>\<open>allStatusIssues\<close> holds an issue.\<close>

definition hasStatusAlert :: "StatusAlert \<Rightarrow> bool" where
  "hasStatusAlert c = (length (allStatusIssues c) > 0)"

definition alertType_aggregated :: "StatusAlert \<Rightarrow> AlertType" where
  "alertType_aggregated c =
     (if hasStatusAlert c then Status
      else case activeIssue c of None \<Rightarrow> Info | Some issue \<Rightarrow> getAlertType (labels issue))"

text \<open>The condition under which the banner is rendered, in the single-issue and in the
  aggregated variant; \<open>isVisible\<close> is the component's own flag, and \<^verbatim>\<open>isLoading\<close> is
  a ref, read as it is.\<close>

definition bannerRendered_single :: "bool \<Rightarrow> StatusAlert \<Rightarrow> bool" where
  "bannerRendered_single isVisible c =
     (activeIssue c \<noteq> None \<and> isVisible \<and> \<not> isLoading (alert c))"

definition bannerRendered_aggregated :: "bool \<Rightarrow> StatusAlert \<Rightarrow> bool" where
  "bannerRendered_aggregated isVisible c =
     ((hasStatusAlert c \<or> activeIssue c \<noteq> None) \<and> isVisible \<and> \<not> isLoading (alert c))"

subsection \<open>Example data\<close>

text \<open>
  A date parser for the examples. It gives the two ISO 8601 texts of the composable's
  documentation comment their instants (15:30 and 16:30 UTC on 22 January 2026) and
  takes every other text as unparsable; the examples use it only on those two texts and
  on words without a digit, which no engine parses.
\<close>

definition sampleDate :: "string \<Rightarrow> Date" where
  "sampleDate t =
     (if t = ''2026-01-22T22:30:00+07:00'' then Instant 1769095800000
      else if t = ''2026-01-22T23:30:00+07:00'' then Instant 1769099400000
      else InvalidDate)"

definition maintenanceNotice :: StatusIssue where
  "maintenanceNotice =
     \<lparr>id' = 101, number = 7, title = ''Database upgrade'',
      body = ''<!--\<newline>start: 2026-01-22T22:30:00+07:00\<newline>end: 2026-01-22T23:30:00+07:00\<newline>expectedDegraded: base-api, script-license-api\<newline>-->\<newline>The database is upgraded.'',
      html_url = ''https://github.com/example/status/issues/7'', state = ''open'',
      labels = [\<lparr>label_id = 1, name = ''maintenance'', color = ''fbca04''\<rparr>],
      created_at = ''2026-01-20T08:00:00Z'', updated_at = ''2026-01-20T08:00:00Z''\<rparr>"

definition statusNotice :: StatusIssue where
  "statusNotice =
     \<lparr>id' = 102, number = 8, title = ''core-api outage'', body = ''core-api down'',
      html_url = ''https://github.com/example/status/issues/8'', state = ''open'',
      labels = [\<lparr>label_id = 2, name = ''Status'', color = ''d73a4a''\<rparr>,
                \<lparr>label_id = 3, name = ''core-api'', color = ''0e8a16''\<rparr>],
      created_at = ''2026-01-22T15:40:00Z'', updated_at = ''2026-01-22T15:40:00Z''\<rparr>"

text \<open>The state after a fetch that delivered the given issues, nothing dismissed.\<close>

definition loaded :: "StatusIssue list \<Rightarrow> AlertState" where
  "loaded items =
     \<lparr>issues = items, isLoading = False, error = None, isDismissed = False,
      dismissedAlerts = None\<rparr>"

text \<open>The component after its setup with nothing fetched and nothing dismissed, a first
  rendering that read both properties, and a fetch that delivered the given issues.\<close>

definition mounted :: "StatusIssue list \<Rightarrow> StatusAlert" where
  "mounted items =
     fetched (read_allStatusIssues (read_activeIssue (mount (loaded []))))
       (FetchResolved 200 (JsonResolved (JsonItems items)))"

subsection \<open>Facts about the matcher\<close>

text \<open>\<open>findSub\<close> splits the text at an occurrence of the literal, finds the leftmost
  one, and fails exactly when the literal does not occur.\<close>

lemma findSub_decomp: "findSub pat s = Some (a, r) \<Longrightarrow> s = a @ pat @ r"
proof (induction s arbitrary: a)
  case Nil
  then show ?case by (simp split: if_splits)
next
  case (Cons c cs)
  show ?case
  proof (cases "prefix pat (c # cs)")
    case True
    with Cons.prems have "a = []" and "r = drop (length pat) (c # cs)" by simp_all
    moreover from True obtain zs where "c # cs = pat @ zs" by (auto simp: prefix_def)
    ultimately show ?thesis by simp
  next
    case False
    with Cons.prems obtain a' where "findSub pat cs = Some (a', r)" and "a = c # a'"
      by auto
    with Cons.IH show ?thesis by simp
  qed
qed

lemma findSub_leftmost:
  "s = u @ pat @ v \<Longrightarrow> \<exists>a r. findSub pat s = Some (a, r) \<and> length a \<le> length u"
proof (induction s arbitrary: u)
  case Nil
  then show ?case by simp
next
  case (Cons c cs)
  show ?case
  proof (cases "prefix pat (c # cs)")
    case True
    then show ?thesis by simp
  next
    case False
    with Cons.prems have "u \<noteq> []" by (auto simp: prefix_def)
    then obtain u' where u: "u = c # u'" and cs: "cs = u' @ pat @ v"
      using Cons.prems by (cases u) auto
    from Cons.IH [OF cs] obtain a r where "findSub pat cs = Some (a, r)" "length a \<le> length u'"
      by blast
    with False u show ?thesis by simp
  qed
qed

lemma findSub_None_iff: "findSub pat s = None \<longleftrightarrow> \<not> sublist pat s"
proof
  assume "findSub pat s = None"
  show "\<not> sublist pat s"
  proof
    assume "sublist pat s"
    then obtain u v where "s = u @ pat @ v" by (auto simp: sublist_def)
    from findSub_leftmost [OF this] \<open>findSub pat s = None\<close> show False by auto
  qed
next
  assume n: "\<not> sublist pat s"
  show "findSub pat s = None"
  proof (cases "findSub pat s")
    case None
    then show ?thesis .
  next
    case (Some p)
    then obtain a r where "findSub pat s = Some (a, r)" by (cases p) auto
    from findSub_decomp [OF this] n show ?thesis by (auto simp: sublist_def)
  qed
qed

lemma commentMatch_decomp:
  "commentMatch b = Some (pre, inner, post) \<Longrightarrow> b = pre @ ''<!--'' @ inner @ ''-->'' @ post"
  unfolding commentMatch_def
  by (auto split: option.splits dest!: findSub_decomp)

lemma commentMatch_None:
  "\<not> sublist ''<!--'' b \<or> \<not> sublist ''-->'' b \<Longrightarrow> commentMatch b = None"
proof (cases "commentMatch b")
  case None
  then show ?thesis by simp
next
  case (Some t)
  assume h: "\<not> sublist ''<!--'' b \<or> \<not> sublist ''-->'' b"
  obtain pre inner post where "t = (pre, inner, post)" by (cases t) auto
  with Some have "commentMatch b = Some (pre, inner, post)" by simp
  then have "b = pre @ ''<!--'' @ inner @ ''-->'' @ post"
    by (rule commentMatch_decomp)
  then have "sublist ''<!--'' b" and "sublist ''-->'' b"
    by (metis sublist_appendI, metis sublist_appendI append.assoc)
  with h show ?thesis by blast
qed

lemma commentMatch_found:
  assumes "b = u @ ''<!--'' @ m @ ''-->'' @ w"
  shows "\<exists>pre inner post. commentMatch b = Some (pre, inner, post)"
proof -
  from findSub_leftmost [of b u "''<!--''" "m @ ''-->'' @ w"] assms
  obtain pre rest where f: "findSub ''<!--'' b = Some (pre, rest)" and le: "length pre \<le> length u"
    by auto
  from findSub_decomp [OF f] have b: "b = pre @ ''<!--'' @ rest" .
  have r: "drop (length pre + 4) b = rest"
    by (subst b) simp
  have "drop (length u + 4) b = m @ ''-->'' @ w"
    by (subst assms) simp
  moreover have "drop (length u + 4) b = drop (length u - length pre) (drop (length pre + 4) b)"
    using le by simp
  ultimately have "drop (length u - length pre) rest = m @ ''-->'' @ w"
    using r by simp
  then have "rest = (take (length u - length pre) rest @ m) @ ''-->'' @ w"
    by (metis append_take_drop_id append.assoc)
  then have "sublist ''-->'' rest"
    by (metis sublist_appendI)
  then obtain inner post where "findSub ''-->'' rest = Some (inner, post)"
    using findSub_None_iff [of "''-->''" rest] by (cases "findSub ''-->'' rest") auto
  with f show ?thesis by (simp add: commentMatch_def)
qed

text \<open>The occurrence found is the first one: the literal does not start anywhere
  before it.\<close>

lemma findSub_first:
  assumes "findSub pat s = Some (a, r)" and "pat \<noteq> []"
  shows "\<not> sublist pat (a @ butlast pat)"
proof
  assume "sublist pat (a @ butlast pat)"
  then obtain u v where uv: "a @ butlast pat = u @ pat @ v"
    by (auto simp: sublist_def)
  then have "length a + length (butlast pat) = length u + length pat + length v"
    by (metis length_append add.assoc)
  with assms(2) have lt: "length u < length a"
    by (cases pat rule: rev_cases) auto
  from findSub_decomp [OF assms(1)] assms(2)
  have "s = (a @ butlast pat) @ [last pat] @ r"
    by (metis append.assoc append_butlast_last_id)
  with uv have "s = u @ pat @ (v @ [last pat] @ r)"
    by simp
  from findSub_leftmost [OF this] assms(1) have "length a \<le> length u"
    by auto
  with lt show False by simp
qed

lemma commentMatch_first:
  assumes "commentMatch b = Some (pre, inner, post)"
  shows "\<not> sublist ''<!--'' (pre @ ''<!-'')" and "\<not> sublist ''-->'' (inner @ ''--'')"
proof -
  from assms obtain rest where 1: "findSub ''<!--'' b = Some (pre, rest)"
    and 2: "findSub ''-->'' rest = Some (inner, post)"
    by (auto simp: commentMatch_def split: option.splits)
  from findSub_first [OF 1] show "\<not> sublist ''<!--'' (pre @ ''<!-'')" by simp
  from findSub_first [OF 2] show "\<not> sublist ''-->'' (inner @ ''--'')" by simp
qed

text \<open>The pieces of a split: one more than there are commas, none holding a comma,
  and joined by commas they give the text back.\<close>

lemma split_comma_nonempty: "split_comma t \<noteq> []"
  by (induction t) (auto split: list.splits)

lemma split_comma_length: "length (split_comma t) = Suc (count_list t CHR '','')"
  by (induction t) (auto split: list.splits simp: split_comma_nonempty)

lemma split_comma_join: "concat (map (\<lambda>p. CHR '','' # p) (split_comma t)) = CHR '','' # t"
  by (induction t) (auto split: list.splits simp: split_comma_nonempty)

lemma split_comma_pieces: "p \<in> set (split_comma t) \<Longrightarrow> CHR '','' \<notin> set p"
  by (induction t arbitrary: p) (auto split: list.splits if_splits)

text \<open>The result of the parser on a body with a comment block.\<close>

lemma parseIssueBody_block:
  "commentMatch b = Some (pre, inner, post) \<Longrightarrow>
   parseIssueBody pd b =
     \<lparr>start = map_option (\<lambda>v. pd (trim v)) (keyMatch ''start:'' (trim inner)),
      end' = map_option (\<lambda>v. pd (trim v)) (keyMatch ''end:'' (trim inner)),
      expectedDown =
        map_option (\<lambda>v. map trim (split_comma (trim v)))
          (keyMatch ''expectedDown:'' (trim inner)),
      expectedDegraded =
        map_option (\<lambda>v. map trim (split_comma (trim v)))
          (keyMatch ''expectedDegraded:'' (trim inner)),
      description = trim (pre @ dropWhile isSpace post)\<rparr>"
  by (simp add: parseIssueBody_def Let_def)

text \<open>\<^verbatim>\<open>find\<close> is the head of \<^verbatim>\<open>filter\<close>, and neither the stored dismissals nor the
  choice of \<^verbatim>\<open>find\<close> by id depend on the bodies.\<close>

lemma find_filter_hd: "find P xs = (case filter P xs of [] \<Rightarrow> None | x # _ \<Rightarrow> Some x)"
  by (induction xs) auto

lemma storedDismissed_issues [simp]: "storedDismissed (s\<lparr>issues := xs\<rparr>) = storedDismissed s"
  by (simp add: storedDismissed_def)

lemma find_map_body:
  "find (\<lambda>n. P (id' n)) (map (\<lambda>n. n\<lparr>body := f n\<rparr>) xs)
     = map_option (\<lambda>n. n\<lparr>body := f n\<rparr>) (find (\<lambda>n. P (id' n)) xs)"
  by (induction xs) auto

text \<open>The two exits of an attempt.\<close>

lemma fetchStatusIssues_Inl:
  "tryFetch outcome = Inl e \<Longrightarrow>
   fetchStatusIssues s outcome =
     s\<lparr>isLoading := False,
       error := Some (case e of ErrorObject m \<Rightarrow> m | OtherValue \<Rightarrow> ''Failed to fetch status'')\<rparr>"
  by (simp add: fetchStatusIssues_def Let_def)

lemma fetchStatusIssues_Inr:
  "tryFetch outcome = Inr items \<Longrightarrow>
   fetchStatusIssues s outcome = s\<lparr>isLoading := False, error := None, issues := items\<rparr>"
  by (simp add: fetchStatusIssues_def Let_def)

text \<open>A notice is found exactly when the list splits at it after notices that the
  predicate rejects.\<close>

lemma find_Some_split:
  "(find P xs = Some x) =
     (\<exists>pre post. xs = pre @ x # post \<and> (\<forall>m \<in> set pre. \<not> P m) \<and> P x)"
proof (induction xs)
  case Nil
  then show ?case by simp
next
  case (Cons a xs)
  show ?case
  proof (cases "P a")
    case True
    have "(\<exists>pre post. a # xs = pre @ x # post \<and> (\<forall>m \<in> set pre. \<not> P m) \<and> P x) = (a = x)"
    proof
      assume "\<exists>pre post. a # xs = pre @ x # post \<and> (\<forall>m \<in> set pre. \<not> P m) \<and> P x"
      then obtain pre post where e: "a # xs = pre @ x # post" and n: "\<forall>m \<in> set pre. \<not> P m"
        by blast
      from e n True show "a = x" by (cases pre) auto
    next
      assume "a = x"
      with True have "a # xs = [] @ x # xs \<and> (\<forall>m \<in> set []. \<not> P m) \<and> P x" by simp
      then show "\<exists>pre post. a # xs = pre @ x # post \<and> (\<forall>m \<in> set pre. \<not> P m) \<and> P x"
        by blast
    qed
    with True show ?thesis by simp
  next
    case False
    have "(\<exists>pre post. a # xs = pre @ x # post \<and> (\<forall>m \<in> set pre. \<not> P m) \<and> P x)
          = (\<exists>pre post. xs = pre @ x # post \<and> (\<forall>m \<in> set pre. \<not> P m) \<and> P x)"
    proof
      assume "\<exists>pre post. a # xs = pre @ x # post \<and> (\<forall>m \<in> set pre. \<not> P m) \<and> P x"
      then obtain pre post where e: "a # xs = pre @ x # post" and n: "\<forall>m \<in> set pre. \<not> P m"
        and p: "P x" by blast
      from e p False obtain pre' where "pre = a # pre'" by (cases pre) auto
      with e n p have "xs = pre' @ x # post \<and> (\<forall>m \<in> set pre'. \<not> P m) \<and> P x" by simp
      then show "\<exists>pre post. xs = pre @ x # post \<and> (\<forall>m \<in> set pre. \<not> P m) \<and> P x" by blast
    next
      assume "\<exists>pre post. xs = pre @ x # post \<and> (\<forall>m \<in> set pre. \<not> P m) \<and> P x"
      then obtain pre post where "xs = pre @ x # post" "\<forall>m \<in> set pre. \<not> P m" "P x" by blast
      with False have "a # xs = (a # pre) @ x # post \<and> (\<forall>m \<in> set (a # pre). \<not> P m) \<and> P x"
        by simp
      then show "\<exists>pre post. a # xs = pre @ x # post \<and> (\<forall>m \<in> set pre. \<not> P m) \<and> P x"
        by blast
    qed
    with False Cons.IH show ?thesis by simp
  qed
qed

text \<open>
  An attempt to fetch leaves the stored dismissals, a dismissal keeps the earlier ones
  and the fetched list. In every reachable state of the component, a cached value is
  the value of its getter on the current list for dismissals that are among the
  current ones; so is, then, the value that a read delivers.
\<close>

lemma storedDismissed_fetch [simp]:
  "storedDismissed (fetchStatusIssues s outcome) = storedDismissed s"
  by (simp add: fetchStatusIssues_def storedDismissed_def Let_def split: sum.splits)

lemma storedDismissed_dismissAlert:
  "set (storedDismissed s) \<subseteq> set (storedDismissed (dismissAlert s i))"
  by (auto simp: dismissAlert_def storedDismissed_def Let_def split: option.splits)

lemma issues_dismissAlert [simp]: "issues (dismissAlert s i) = issues s"
  by (simp add: dismissAlert_def Let_def)

lemma reachable_caches:
  assumes "reachable c"
  shows "(\<forall>v. activeIssue_cache c = Some v \<longrightarrow>
            (\<exists>D. set D \<subseteq> set (storedDismissed (alert c))
                 \<and> v = find (\<lambda>m. id' m \<notin> set D) (issues (alert c))))
         \<and> (\<forall>v. allStatusIssues_cache c = Some v \<longrightarrow>
            (\<exists>D. set D \<subseteq> set (storedDismissed (alert c))
                 \<and> v = filter (\<lambda>m. ''status'' \<in> set (labelNames (labels m)) \<and> id' m \<notin> set D)
                         (issues (alert c))))"
  using assms
proof (induction rule: reachable.induct)
  case (mount s)
  show ?case by (simp add: mount_def)
next
  case (read_activeIssue c)
  have "\<exists>D. set D \<subseteq> set (storedDismissed (alert c))
            \<and> activeIssue c = find (\<lambda>m. id' m \<notin> set D) (issues (alert c))"
  proof (cases "activeIssue_cache c")
    case None
    then have "activeIssue c = find (\<lambda>m. id' m \<notin> set (storedDismissed (alert c))) (issues (alert c))"
      by (simp add: activeIssue_def getActiveIssue_def isAlertDismissed_def)
    then show ?thesis by blast
  next
    case (Some v)
    with read_activeIssue.IH show ?thesis by (simp add: activeIssue_def)
  qed
  with read_activeIssue.IH show ?case by (simp add: read_activeIssue_def)
next
  case (read_allStatusIssues c)
  have "\<exists>D. set D \<subseteq> set (storedDismissed (alert c))
            \<and> allStatusIssues c
                = filter (\<lambda>m. ''status'' \<in> set (labelNames (labels m)) \<and> id' m \<notin> set D)
                    (issues (alert c))"
  proof (cases "allStatusIssues_cache c")
    case None
    then have "allStatusIssues c
                = filter (\<lambda>m. ''status'' \<in> set (labelNames (labels m))
                               \<and> id' m \<notin> set (storedDismissed (alert c)))
                    (issues (alert c))"
      by (simp add: allStatusIssues_def allStatusIssues_getter_def isAlertDismissed_def)
    then show ?thesis by blast
  next
    case (Some v)
    with read_allStatusIssues.IH show ?thesis by (simp add: allStatusIssues_def)
  qed
  with read_allStatusIssues.IH show ?case by (simp add: read_allStatusIssues_def)
next
  case (fetched c outcome)
  show ?case
  proof (cases "tryFetch outcome")
    case (Inl e)
    then have "issues (alert (fetched c outcome)) = issues (alert c)"
      and "storedDismissed (alert (fetched c outcome)) = storedDismissed (alert c)"
      and "activeIssue_cache (fetched c outcome) = activeIssue_cache c"
      and "allStatusIssues_cache (fetched c outcome) = allStatusIssues_cache c"
      by (simp_all add: fetched_def fetchStatusIssues_Inl storedDismissed_def)
    with fetched.IH show ?thesis by simp
  next
    case (Inr items)
    then show ?thesis by (simp add: fetched_def)
  qed
next
  case (dismissed c i)
  have sub: "set (storedDismissed (alert c)) \<subseteq> set (storedDismissed (alert (dismissed c i)))"
    by (simp add: dismissed_def storedDismissed_dismissAlert)
  have eq: "issues (alert (dismissed c i)) = issues (alert c)"
    "activeIssue_cache (dismissed c i) = activeIssue_cache c"
    "allStatusIssues_cache (dismissed c i) = allStatusIssues_cache c"
    by (simp_all add: dismissed_def)
  from dismissed.IH sub show ?case
    unfolding eq by (meson subset_trans)
qed

lemma reachable_allStatusIssues:
  assumes "reachable c"
  shows "\<exists>D. set D \<subseteq> set (storedDismissed (alert c))
            \<and> allStatusIssues c
                = filter (\<lambda>m. ''status'' \<in> set (labelNames (labels m)) \<and> id' m \<notin> set D)
                    (issues (alert c))"
proof (cases "allStatusIssues_cache c")
  case None
  then have "allStatusIssues c
              = filter (\<lambda>m. ''status'' \<in> set (labelNames (labels m))
                             \<and> id' m \<notin> set (storedDismissed (alert c)))
                  (issues (alert c))"
    by (simp add: allStatusIssues_def allStatusIssues_getter_def isAlertDismissed_def)
  then show ?thesis by blast
next
  case (Some v)
  with reachable_caches [OF assms] show ?thesis by (simp add: allStatusIssues_def)
qed

lemma reachable_activeIssue:
  assumes "reachable c"
  shows "\<exists>D. set D \<subseteq> set (storedDismissed (alert c))
            \<and> activeIssue c = find (\<lambda>m. id' m \<notin> set D) (issues (alert c))"
proof (cases "activeIssue_cache c")
  case None
  then have "activeIssue c = find (\<lambda>m. id' m \<notin> set (storedDismissed (alert c))) (issues (alert c))"
    by (simp add: activeIssue_def getActiveIssue_def isAlertDismissed_def)
  then show ?thesis by blast
next
  case (Some v)
  with reachable_caches [OF assms] show ?thesis by (simp add: activeIssue_def)
qed

subsection \<open>Theorems\<close>

text \<open>
  C1, as stated, fails: nothing in the selection looks at the schedule. When the only
  fetched notice is a maintenance notice that nobody dismissed and whose window, with
  both bounds valid, ended one millisecond before the current instant (so that it is
  neither active nor upcoming), \<^verbatim>\<open>getActiveIssue\<close> returns it, and a component that
  was set up and then fetched it renders the banner for it, in both variants, as a
  maintenance alert.
\<close>

theorem expired_notice_selected:
  "getActiveIssue (loaded [maintenanceNotice]) = Some maintenanceNotice
   \<and> \<not> isAlertDismissed (loaded [maintenanceNotice]) (id' maintenanceNotice)
   \<and> getAlertType (labels maintenanceNotice) = Maintenance
   \<and> start (parseIssueBody sampleDate (body maintenanceNotice)) = Some (Instant 1769095800000)
   \<and> end' (parseIssueBody sampleDate (body maintenanceNotice)) = Some (Instant 1769099400000)
   \<and> (1769099400000 :: int) < 1769099400001
   \<and> \<not> isActiveSchedule 1769099400001 (parseIssueBody sampleDate (body maintenanceNotice))
   \<and> \<not> isUpcoming 1769099400001 (parseIssueBody sampleDate (body maintenanceNotice))
   \<and> alert (mounted [maintenanceNotice]) = loaded [maintenanceNotice]
   \<and> activeIssue (mounted [maintenanceNotice]) = Some maintenanceNotice
   \<and> alertType_aggregated (mounted [maintenanceNotice]) = Maintenance
   \<and> bannerRendered_aggregated True (mounted [maintenanceNotice])
   \<and> alertType_single (mounted [maintenanceNotice]) = Maintenance
   \<and> bannerRendered_single True (mounted [maintenanceNotice])"
  by code_simp

text \<open>
  C1, amended. The selector drops the dismissed notices and no others.
  \<^verbatim>\<open>getAllActiveIssues\<close> is the fetched list without the dismissed notices, in fetch
  order. \<^verbatim>\<open>getActiveIssue\<close> returns a notice exactly when the fetched list splits into
  dismissed notices, that notice, which is not dismissed, and a rest: it is the first
  notice in fetch order that is not dismissed, the head of \<^verbatim>\<open>getAllActiveIssues\<close>, and
  there is none exactly when every fetched notice is dismissed. The choice does not
  depend on the bodies of the notices, hence not on their schedule: rewriting every body
  leaves the same notice selected. Expired notices are not dropped.
\<close>

theorem selection_drops_only_dismissed:
  "getAllActiveIssues s = filter (\<lambda>n. \<not> isAlertDismissed s (id' n)) (issues s)
   \<and> subseq (getAllActiveIssues s) (issues s)
   \<and> (getActiveIssue s = Some n) =
       (\<exists>pre post. issues s = pre @ n # post
                    \<and> (\<forall>m \<in> set pre. isAlertDismissed s (id' m))
                    \<and> \<not> isAlertDismissed s (id' n))
   \<and> (getActiveIssue s = None) = (\<forall>m \<in> set (issues s). isAlertDismissed s (id' m))
   \<and> getActiveIssue s = (case getAllActiveIssues s of [] \<Rightarrow> None | m # _ \<Rightarrow> Some m)
   \<and> getActiveIssue (s\<lparr>issues := map (\<lambda>m. m\<lparr>body := f m\<rparr>) (issues s)\<rparr>)
       = map_option (\<lambda>m. m\<lparr>body := f m\<rparr>) (getActiveIssue s)"
proof -
  have 1: "getAllActiveIssues s = filter (\<lambda>n. \<not> isAlertDismissed s (id' n)) (issues s)"
    by (simp add: getAllActiveIssues_def)
  have 2: "subseq (getAllActiveIssues s) (issues s)"
    by (simp add: getAllActiveIssues_def)
  have 3: "(getActiveIssue s = Some n) =
       (\<exists>pre post. issues s = pre @ n # post
                    \<and> (\<forall>m \<in> set pre. isAlertDismissed s (id' m))
                    \<and> \<not> isAlertDismissed s (id' n))"
    using find_Some_split [of "\<lambda>m. \<not> isAlertDismissed s (id' m)" "issues s" n]
    by (simp add: getActiveIssue_def)
  have 4: "(getActiveIssue s = None) = (\<forall>m \<in> set (issues s). isAlertDismissed s (id' m))"
    by (auto simp: getActiveIssue_def find_None_iff)
  have 5: "getActiveIssue s = (case getAllActiveIssues s of [] \<Rightarrow> None | m # _ \<Rightarrow> Some m)"
    by (simp add: getActiveIssue_def getAllActiveIssues_def find_filter_hd)
  have 6: "getActiveIssue (s\<lparr>issues := map (\<lambda>m. m\<lparr>body := f m\<rparr>) (issues s)\<rparr>)
       = map_option (\<lambda>m. m\<lparr>body := f m\<rparr>) (getActiveIssue s)"
    using find_map_body [of "\<lambda>i. i \<notin> set (storedDismissed s)" f "issues s"]
    by (simp add: getActiveIssue_def isAlertDismissed_def)
  from 1 2 3 4 5 6 show ?thesis by blast
qed

theorem selection_drops_only_dismissed_witness:
  "getActiveIssue (loaded [statusNotice, maintenanceNotice]) = Some statusNotice
   \<and> getAllActiveIssues (loaded [statusNotice, maintenanceNotice])
       = [statusNotice, maintenanceNotice]
   \<and> getActiveIssue (dismissAlert (loaded [statusNotice, maintenanceNotice]) 102)
       = Some maintenanceNotice
   \<and> getAllActiveIssues (dismissAlert (loaded [statusNotice, maintenanceNotice]) 102)
       = [maintenanceNotice]"
proof -
  have a: "filter (\<lambda>n. \<not> isAlertDismissed (loaded [statusNotice, maintenanceNotice]) (id' n))
             (issues (loaded [statusNotice, maintenanceNotice]))
           = [statusNotice, maintenanceNotice]"
    by code_simp
  have b: "filter (\<lambda>n. \<not> isAlertDismissed
                          (dismissAlert (loaded [statusNotice, maintenanceNotice]) 102) (id' n))
             (issues (dismissAlert (loaded [statusNotice, maintenanceNotice]) 102))
           = [maintenanceNotice]"
    by code_simp
  from selection_drops_only_dismissed [of "loaded [statusNotice, maintenanceNotice]"]
       selection_drops_only_dismissed
         [of "dismissAlert (loaded [statusNotice, maintenanceNotice]) 102"] a b
  show ?thesis by simp
qed

text \<open>
  C2, as stated, fails in the single-issue variant of the component, which has no
  priority rule: after a fetch that delivered a maintenance notice whose window is open
  before a notice tagged status, neither dismissed, the active issue is the maintenance
  notice and the banner is a maintenance alert.
\<close>

theorem single_variant_follows_fetch_order:
  "alert (mounted [maintenanceNotice, statusNotice]) = loaded [maintenanceNotice, statusNotice]
   \<and> activeIssue (mounted [maintenanceNotice, statusNotice]) = Some maintenanceNotice
   \<and> alertType_single (mounted [maintenanceNotice, statusNotice]) = Maintenance
   \<and> ''status'' \<in> set (labelNames (labels statusNotice))
   \<and> \<not> isAlertDismissed (loaded [maintenanceNotice, statusNotice]) (id' statusNotice)
   \<and> \<not> isAlertDismissed (loaded [maintenanceNotice, statusNotice]) (id' maintenanceNotice)
   \<and> isActiveSchedule 1769097600000 (parseIssueBody sampleDate (body maintenanceNotice))
   \<and> bannerRendered_single True (mounted [maintenanceNotice, statusNotice])"
  by code_simp

text \<open>
  C2, amended. In the aggregated variant, in every state that the component can reach,
  whenever some fetched notice that is not dismissed carries the tag status, at any
  position of the list and whatever else was fetched, the alert type is status, the
  notice is in the status group, and the banner is rendered as soon as the component is
  visible and not loading. The single-issue variant has no priority rule. Its alert
  type is the type of its cached active issue: the first notice in fetch order that was
  not dismissed when the property was read first after the setup or after the last
  successful fetch. A read without a cached value takes the first notice that is not
  dismissed now; a read keeps the value, and a dismissal after a read does not change
  it; the notices dismissed at the first read are among those dismissed now.
\<close>

theorem status_precedence_in_aggregated_variant:
  assumes "reachable c"
    and "n \<in> set (issues (alert c))"
    and "''status'' \<in> set (labelNames (labels n))"
    and "\<not> isAlertDismissed (alert c) (id' n)"
  shows "alertType_aggregated c = Status \<and> n \<in> set (allStatusIssues c)
         \<and> (\<forall>v. bannerRendered_aggregated v c = (v \<and> \<not> isLoading (alert c)))
         \<and> (activeIssue_cache c = None \<longrightarrow>
              alertType_single c =
                (case getAllActiveIssues (alert c) of
                   [] \<Rightarrow> Info | m # _ \<Rightarrow> getAlertType (labels m)))
         \<and> activeIssue_cache (mount s) = None
         \<and> (tryFetch outcome = Inr items \<longrightarrow> activeIssue_cache (fetched c outcome) = None)
         \<and> (tryFetch outcome = Inl e \<longrightarrow>
              activeIssue_cache (fetched c outcome) = activeIssue_cache c)
         \<and> alertType_single (read_activeIssue c) = alertType_single c
         \<and> alertType_single (dismissed (read_activeIssue c) i) = alertType_single c
         \<and> (\<exists>D. set D \<subseteq> set (storedDismissed (alert c))
                \<and> alertType_single c =
                    (case filter (\<lambda>m. id' m \<notin> set D) (issues (alert c)) of
                       [] \<Rightarrow> Info | m # _ \<Rightarrow> getAlertType (labels m)))"
proof -
  from reachable_allStatusIssues [OF assms(1)]
  obtain D where D: "set D \<subseteq> set (storedDismissed (alert c))"
    and a: "allStatusIssues c
              = filter (\<lambda>m. ''status'' \<in> set (labelNames (labels m)) \<and> id' m \<notin> set D)
                  (issues (alert c))"
    by blast
  from assms(4) D have "id' n \<notin> set D"
    by (auto simp: isAlertDismissed_def)
  with a assms(2,3) have m: "n \<in> set (allStatusIssues c)"
    by simp
  then have h: "hasStatusAlert c"
    by (auto simp: hasStatusAlert_def)
  have 1: "alertType_aggregated c = Status"
    using h by (simp add: alertType_aggregated_def)
  have 2: "\<forall>v. bannerRendered_aggregated v c = (v \<and> \<not> isLoading (alert c))"
    using h by (simp add: bannerRendered_aggregated_def)
  have 3: "activeIssue_cache c = None \<longrightarrow>
              alertType_single c =
                (case getAllActiveIssues (alert c) of
                   [] \<Rightarrow> Info | m # _ \<Rightarrow> getAlertType (labels m))"
    by (simp add: alertType_single_def activeIssue_def getActiveIssue_def
        getAllActiveIssues_def find_filter_hd split: list.splits)
  have r: "activeIssue (read_activeIssue c) = activeIssue c"
    by (simp add: read_activeIssue_def activeIssue_def)
  have d: "activeIssue (dismissed (read_activeIssue c) i) = activeIssue c"
    by (simp add: dismissed_def read_activeIssue_def activeIssue_def)
  have 4: "alertType_single (read_activeIssue c) = alertType_single c"
    using r by (simp add: alertType_single_def)
  have 5: "alertType_single (dismissed (read_activeIssue c) i) = alertType_single c"
    using d by (simp add: alertType_single_def)
  from reachable_activeIssue [OF assms(1)]
  obtain E where E: "set E \<subseteq> set (storedDismissed (alert c))"
    and e: "activeIssue c = find (\<lambda>m. id' m \<notin> set E) (issues (alert c))"
    by blast
  have "alertType_single c =
          (case filter (\<lambda>m. id' m \<notin> set E) (issues (alert c)) of
             [] \<Rightarrow> Info | m # _ \<Rightarrow> getAlertType (labels m))"
    by (simp add: alertType_single_def e find_filter_hd split: list.splits)
  with E have 6: "\<exists>D. set D \<subseteq> set (storedDismissed (alert c))
                \<and> alertType_single c =
                    (case filter (\<lambda>m. id' m \<notin> set D) (issues (alert c)) of
                       [] \<Rightarrow> Info | m # _ \<Rightarrow> getAlertType (labels m))"
    by blast
  have 7: "activeIssue_cache (mount s) = None"
    by (simp add: mount_def)
  have 8: "tryFetch outcome = Inr items \<longrightarrow> activeIssue_cache (fetched c outcome) = None"
    by (simp add: fetched_def)
  have 9: "tryFetch outcome = Inl e \<longrightarrow>
              activeIssue_cache (fetched c outcome) = activeIssue_cache c"
    by (simp add: fetched_def)
  from 1 m 2 3 4 5 6 7 8 9 show ?thesis by blast
qed

theorem status_precedence_in_aggregated_variant_witness:
  "alertType_aggregated (mounted [maintenanceNotice, statusNotice]) = Status
   \<and> alertType_aggregated (mounted [statusNotice, maintenanceNotice]) = Status
   \<and> statusNotice \<in> set (allStatusIssues (mounted [maintenanceNotice, statusNotice]))
   \<and> alertType_aggregated
        (dismissed (read_activeIssue (mounted [maintenanceNotice, statusNotice])) 101) = Status
   \<and> alertType_single
        (dismissed (read_activeIssue (mounted [maintenanceNotice, statusNotice])) 101)
       = Maintenance"
proof -
  have r: "reachable (mounted [maintenanceNotice, statusNotice])"
    and r': "reachable (mounted [statusNotice, maintenanceNotice])"
    and r'': "reachable (dismissed (read_activeIssue (mounted [maintenanceNotice, statusNotice])) 101)"
    unfolding mounted_def by (intro reachable.intros)+
  have a: "statusNotice \<in> set (issues (alert (mounted [maintenanceNotice, statusNotice])))"
    and a': "statusNotice \<in> set (issues (alert (mounted [statusNotice, maintenanceNotice])))"
    and a'': "statusNotice \<in> set (issues (alert
                (dismissed (read_activeIssue (mounted [maintenanceNotice, statusNotice])) 101)))"
    by code_simp+
  have b: "''status'' \<in> set (labelNames (labels statusNotice))"
    by code_simp
  have c: "\<not> isAlertDismissed (alert (mounted [maintenanceNotice, statusNotice])) (id' statusNotice)"
    and c': "\<not> isAlertDismissed (alert (mounted [statusNotice, maintenanceNotice])) (id' statusNotice)"
    and c'': "\<not> isAlertDismissed (alert
                (dismissed (read_activeIssue (mounted [maintenanceNotice, statusNotice])) 101))
              (id' statusNotice)"
    by code_simp+
  have s: "alertType_single (mounted [maintenanceNotice, statusNotice]) = Maintenance"
    by code_simp
  from status_precedence_in_aggregated_variant [where i = 101, OF r a b c]
       status_precedence_in_aggregated_variant [OF r' a' b c']
       status_precedence_in_aggregated_variant [OF r'' a'' b c''] s
  show ?thesis by simp
qed

text \<open>
  C3, as stated, fails: a notice whose start and end values are both unparsable is not
  treated as active. Both fields are present, each an Invalid Date, and
  \<^verbatim>\<open>isActiveSchedule\<close> returns false.
\<close>

theorem invalid_dates_not_active:
  "sampleDate ''soon'' = InvalidDate \<and> sampleDate ''later'' = InvalidDate
   \<and> start (parseIssueBody sampleDate ''<!--\<newline>start: soon\<newline>end: later\<newline>-->\<newline>Database upgrade'') = Some InvalidDate
   \<and> end' (parseIssueBody sampleDate ''<!--\<newline>start: soon\<newline>end: later\<newline>-->\<newline>Database upgrade'') = Some InvalidDate
   \<and> \<not> isActiveSchedule 1769097600000 (parseIssueBody sampleDate ''<!--\<newline>start: soon\<newline>end: later\<newline>-->\<newline>Database upgrade'')"
  by code_simp

text \<open>
  C3, amended. The parser has no failing branch, and for every body whose metadata block
  has a start key with a value that the date parser rejects, the start field is present
  and holds the Invalid Date. \<^verbatim>\<open>isUpcoming\<close> is then false, as it is for an absent
  start; \<^verbatim>\<open>isActiveSchedule\<close> is true exactly when no end key was matched, and false
  when an end value is present as well, parsable or not.
\<close>

theorem invalid_dates_are_present:
  assumes "commentMatch b = Some (pre, inner, post)"
    and "keyMatch ''start:'' (trim inner) = Some v"
    and "pd (trim v) = InvalidDate"
  shows "start (parseIssueBody pd b) = Some InvalidDate
         \<and> \<not> isUpcoming now (parseIssueBody pd b)
         \<and> isActiveSchedule now (parseIssueBody pd b)
             = (keyMatch ''end:'' (trim inner) = None)"
  using assms parseIssueBody_block [OF assms(1), of pd]
  by (cases "keyMatch ''end:'' (trim inner)") (simp_all add: isUpcoming_def isActiveSchedule_def)

theorem invalid_dates_are_present_witness:
  "commentMatch ''<!--\<newline>start: soon\<newline>end: later\<newline>-->\<newline>Database upgrade''
     = Some ('''', ''\<newline>start: soon\<newline>end: later\<newline>'', ''\<newline>Database upgrade'')
   \<and> keyMatch ''start:'' (trim ''\<newline>start: soon\<newline>end: later\<newline>'') = Some ''soon''
   \<and> sampleDate (trim ''soon'') = InvalidDate
   \<and> start (parseIssueBody sampleDate ''<!--\<newline>start: soon\<newline>end: later\<newline>-->\<newline>Database upgrade'') = Some InvalidDate
   \<and> \<not> isActiveSchedule 0 (parseIssueBody sampleDate ''<!--\<newline>start: soon\<newline>end: later\<newline>-->\<newline>Database upgrade'')"
proof -
  have c: "commentMatch ''<!--\<newline>start: soon\<newline>end: later\<newline>-->\<newline>Database upgrade''
     = Some ('''', ''\<newline>start: soon\<newline>end: later\<newline>'', ''\<newline>Database upgrade'')"
    by code_simp
  have k: "keyMatch ''start:'' (trim ''\<newline>start: soon\<newline>end: later\<newline>'') = Some ''soon''"
    by code_simp
  have d: "sampleDate (trim ''soon'') = InvalidDate"
    by code_simp
  have e: "keyMatch ''end:'' (trim ''\<newline>start: soon\<newline>end: later\<newline>'') = Some ''later''"
    by code_simp
  from invalid_dates_are_present [where pd = sampleDate and now = 0, OF c k d] c k d e show ?thesis
    by simp
qed

text \<open>
  C4, as stated, fails: white space before the comment block and at the end of the body
  is not preserved. The block of the body below is preceded by two spaces and the body
  ends with two spaces; removing the block and the white space after it would leave
  two spaces, \<open>hello\<close> and two spaces, but the description is \<open>hello\<close>.
\<close>

theorem description_not_verbatim:
  "commentMatch ''  <!-- x -->  hello  '' = Some (''  '', '' x '', ''  hello  '')
   \<and> description (parseIssueBody sampleDate ''  <!-- x -->  hello  '') = ''hello''
   \<and> ''  '' @ dropWhile isSpace ''  hello  '' = ''  hello  ''
   \<and> description (parseIssueBody sampleDate ''  <!-- x -->  hello  '')
       \<noteq> ''  '' @ dropWhile isSpace ''  hello  ''"
  by (simp add: parseIssueBody_def commentMatch_def trim_def isSpace_def)

text \<open>
  C4, amended. For every body that contains a comment block (an opener followed by a
  closer), the matcher finds a block: the body is the text before the block, the block
  and the text after it, where the block starts at the leftmost opener and ends at the
  first closer after it. The description is the body without the block and without the
  white space that follows it, then trimmed of white space at both ends: the final
  \<^verbatim>\<open>trim()\<close> also removes white space before the block and at the end of the body.
\<close>

theorem description_block_removed_then_trimmed:
  assumes "b = u @ ''<!--'' @ m @ ''-->'' @ w"
  shows "\<exists>pre inner post.
           commentMatch b = Some (pre, inner, post)
           \<and> b = pre @ ''<!--'' @ inner @ ''-->'' @ post
           \<and> \<not> sublist ''<!--'' (pre @ ''<!-'')
           \<and> \<not> sublist ''-->'' (inner @ ''--'')
           \<and> description (parseIssueBody pd b) = trim (pre @ dropWhile isSpace post)"
proof -
  from commentMatch_found [OF assms]
  obtain pre inner post where c: "commentMatch b = Some (pre, inner, post)" by blast
  have "description (parseIssueBody pd b) = trim (pre @ dropWhile isSpace post)"
    using c by (simp add: parseIssueBody_def Let_def)
  with c commentMatch_decomp [OF c] commentMatch_first [OF c] show ?thesis by blast
qed

theorem description_block_removed_then_trimmed_witness:
  "''  <!-- x -->  hello  '' = ''  '' @ ''<!--'' @ '' x '' @ ''-->'' @ ''  hello  ''
   \<and> description (parseIssueBody sampleDate ''  <!-- x -->  hello  '') = ''hello''"
proof -
  have e: "''  <!-- x -->  hello  '' = ''  '' @ ''<!--'' @ '' x '' @ ''-->'' @ ''  hello  ''"
    by simp
  from description_block_removed_then_trimmed [OF e, of sampleDate]
  show ?thesis
    by (simp add: commentMatch_def trim_def isSpace_def)
qed

text \<open>
  C5. A body that lacks the opening delimiter or the closing delimiter of a comment block
  is returned verbatim as the description, and start, end, expectedDown and
  expectedDegraded are all absent.
\<close>

theorem no_block_verbatim:
  assumes "\<not> sublist ''<!--'' b \<or> \<not> sublist ''-->'' b"
  shows "parseIssueBody pd b =
           \<lparr>start = None, end' = None, expectedDown = None, expectedDegraded = None,
            description = b\<rparr>"
  using commentMatch_None [OF assms] by (simp add: parseIssueBody_def)

theorem no_block_verbatim_witness:
  "\<not> sublist ''<!--'' ''core-api down''
   \<and> parseIssueBody sampleDate ''core-api down'' =
         \<lparr>start = None, end' = None, expectedDown = None, expectedDegraded = None,
          description = ''core-api down''\<rparr>"
proof -
  have h: "\<not> sublist ''<!--'' ''core-api down''" by code_simp
  from no_block_verbatim [OF disjI1 [OF h], of sampleDate] h show ?thesis by simp
qed

text \<open>
  C6. Dismissing an id twice leaves the same state, stored list included, as dismissing
  it once, and the id is dismissed afterwards. \<^verbatim>\<open>getAllActiveIssues\<close> returns no
  dismissed notice, returns every notice that is not dismissed, and keeps the order of
  the fetched list; after a dismissal it returns no notice with the dismissed id.
\<close>

theorem dismiss_idempotent_and_filtering:
  "dismissAlert (dismissAlert s i) i = dismissAlert s i
   \<and> isAlertDismissed (dismissAlert s i) i
   \<and> (\<forall>n \<in> set (getAllActiveIssues s). \<not> isAlertDismissed s (id' n))
   \<and> (\<forall>n \<in> set (issues s). \<not> isAlertDismissed s (id' n) \<longrightarrow> n \<in> set (getAllActiveIssues s))
   \<and> subseq (getAllActiveIssues s) (issues s)
   \<and> (\<forall>n \<in> set (getAllActiveIssues (dismissAlert s i)). id' n \<noteq> i)"
proof -
  have 1: "dismissAlert (dismissAlert s i) i = dismissAlert s i"
    by (cases "dismissedAlerts s") (auto simp: dismissAlert_def storedDismissed_def Let_def)
  have 2: "isAlertDismissed (dismissAlert s i) i"
    by (simp add: dismissAlert_def isAlertDismissed_def storedDismissed_def Let_def)
  have 3: "\<forall>n \<in> set (getAllActiveIssues s). \<not> isAlertDismissed s (id' n)"
    by (simp add: getAllActiveIssues_def)
  have 4: "\<forall>n \<in> set (issues s). \<not> isAlertDismissed s (id' n) \<longrightarrow> n \<in> set (getAllActiveIssues s)"
    by (simp add: getAllActiveIssues_def)
  have 5: "subseq (getAllActiveIssues s) (issues s)"
    by (simp add: getAllActiveIssues_def)
  have 6: "\<forall>n \<in> set (getAllActiveIssues (dismissAlert s i)). id' n \<noteq> i"
    using 2 by (auto simp: getAllActiveIssues_def)
  from 1 2 3 4 5 6 show ?thesis by blast
qed

theorem dismiss_idempotent_and_filtering_witness:
  "dismissedAlerts (dismissAlert (dismissAlert (loaded [statusNotice, maintenanceNotice]) 102) 102)
     = Some [102]
   \<and> getAllActiveIssues (dismissAlert (loaded [statusNotice, maintenanceNotice]) 102)
     = [maintenanceNotice]"
proof -
  have a: "dismissedAlerts (dismissAlert (loaded [statusNotice, maintenanceNotice]) 102) = Some [102]"
    by (simp add: dismissAlert_def storedDismissed_def loaded_def)
  have b: "getAllActiveIssues (dismissAlert (loaded [statusNotice, maintenanceNotice]) 102)
     = [maintenanceNotice]"
    by code_simp
  from dismiss_idempotent_and_filtering [of "loaded [statusNotice, maintenanceNotice]" 102] a b
  show ?thesis by simp
qed

text \<open>
  C7. The schedule bounds are inclusive at both ends: metadata whose start and end both
  equal the current instant is active (and not upcoming); metadata whose start lies one
  second (1000 ms) after the current instant and that has no end is upcoming.
\<close>

theorem inclusive_bounds:
  "isActiveSchedule now (m\<lparr>start := Some (Instant now), end' := Some (Instant now)\<rparr>)
   \<and> \<not> isUpcoming now (m\<lparr>start := Some (Instant now), end' := Some (Instant now)\<rparr>)
   \<and> isUpcoming now (m\<lparr>start := Some (Instant (now + 1000)), end' := None\<rparr>)"
  by (simp add: isActiveSchedule_def isUpcoming_def)

text \<open>
  C8. The expectedDown and the expectedDegraded list of a body with a comment block is
  the matched value, trimmed, split at the commas, each piece trimmed. Splitting filters
  nothing: there is one piece more than there are commas, no piece holds a comma, the
  pieces joined by commas are the value, and \<open>a,,b\<close> gives three pieces, the middle one
  empty.
\<close>

theorem service_lists_split_and_trimmed:
  assumes "commentMatch b = Some (pre, inner, post)"
  shows "expectedDown (parseIssueBody pd b) =
           map_option (\<lambda>v. map trim (split_comma (trim v)))
             (keyMatch ''expectedDown:'' (trim inner))
         \<and> expectedDegraded (parseIssueBody pd b) =
           map_option (\<lambda>v. map trim (split_comma (trim v)))
             (keyMatch ''expectedDegraded:'' (trim inner))
         \<and> length (split_comma t) = Suc (count_list t CHR '','')
         \<and> concat (map (\<lambda>p. CHR '','' # p) (split_comma t)) = CHR '','' # t
         \<and> (\<forall>p \<in> set (split_comma t). CHR '','' \<notin> set p)
         \<and> split_comma ''a,,b'' = [''a'', '''', ''b'']"
  using parseIssueBody_block [OF assms, of pd]
  by (simp add: split_comma_length split_comma_join split_comma_pieces)

theorem service_lists_split_and_trimmed_witness:
  "commentMatch ''<!-- expectedDown: a,,b -->Outage'' = Some ('''', '' expectedDown: a,,b '', ''Outage'')
   \<and> expectedDown (parseIssueBody sampleDate ''<!-- expectedDown: a,,b -->Outage'')
       = Some [''a'', '''', ''b'']"
proof -
  have c: "commentMatch ''<!-- expectedDown: a,,b -->Outage'' = Some ('''', '' expectedDown: a,,b '', ''Outage'')"
    by (simp add: commentMatch_def)
  have k: "keyMatch ''expectedDown:'' (trim '' expectedDown: a,,b '') = Some ''a,,b''"
    by (simp add: trim_def isSpace_def valueAfter_def isLineTerminator_def)
  have t: "map trim (split_comma (trim ''a,,b'')) = [''a'', '''', ''b'']"
    by (simp add: trim_def isSpace_def)
  from service_lists_split_and_trimmed [OF c, of sampleDate] c k t show ?thesis
    by simp
qed

text \<open>
  C9, as stated, fails: a successful response whose JSON payload has no \<^verbatim>\<open>items\<close>
  collection, such as an empty object, records no error. The fallback \<^verbatim>\<open>data.items || []\<close> makes the notice list
  empty and the error stays null.
\<close>

theorem missing_items_is_no_error:
  "error (fetchStatusIssues (loaded [statusNotice]) (FetchResolved 200 (JsonResolved JsonWithoutItems))) = None
   \<and> issues (fetchStatusIssues (loaded [statusNotice]) (FetchResolved 200 (JsonResolved JsonWithoutItems))) = []
   \<and> response_ok 200"
  by (simp add: fetchStatusIssues_def tryFetch_def response_ok_def loaded_def)

text \<open>
  C9, amended. A response with a status outside 200-299 records the message
  \<^verbatim>\<open>GitHub API error: \<close> followed by the status code and leaves the notices as they
  were. With a success status, a body that is no JSON text records the message of the
  error raised by the decoder, the payload \<^verbatim>\<open>null\<close> records an error too, and both
  leave the notices as they were; a payload without an \<^verbatim>\<open>items\<close> collection records no
  error and makes the list empty; a payload with one replaces the list. Errors are
  messages: there are no error kinds.
\<close>

theorem fetch_outcomes:
  "(\<not> response_ok st \<longrightarrow>
      error (fetchStatusIssues s (FetchResolved st payload))
        = Some (''GitHub API error: '' @ showNat st)
      \<and> issues (fetchStatusIssues s (FetchResolved st payload)) = issues s)
   \<and> (response_ok st \<longrightarrow>
      error (fetchStatusIssues s (FetchResolved st (JsonRejected (ErrorObject msg)))) = Some msg
      \<and> issues (fetchStatusIssues s (FetchResolved st (JsonRejected (ErrorObject msg)))) = issues s
      \<and> error (fetchStatusIssues s (FetchResolved st (JsonResolved JsonNull))) \<noteq> None
      \<and> issues (fetchStatusIssues s (FetchResolved st (JsonResolved JsonNull))) = issues s
      \<and> error (fetchStatusIssues s (FetchResolved st (JsonResolved JsonWithoutItems))) = None
      \<and> issues (fetchStatusIssues s (FetchResolved st (JsonResolved JsonWithoutItems))) = []
      \<and> error (fetchStatusIssues s (FetchResolved st (JsonResolved (JsonItems items)))) = None
      \<and> issues (fetchStatusIssues s (FetchResolved st (JsonResolved (JsonItems items)))) = items)"
  by (simp add: fetchStatusIssues_def tryFetch_def)

theorem fetch_outcomes_witness:
  "\<not> response_ok 404
   \<and> error (fetchStatusIssues (loaded [statusNotice]) (FetchResolved 404 (JsonRejected OtherValue)))
       = Some ''GitHub API error: 404''
   \<and> response_ok 200
   \<and> error (fetchStatusIssues (loaded [statusNotice])
              (FetchResolved 200 (JsonRejected (ErrorObject ''Unexpected token <'')))) = Some ''Unexpected token <''"
proof -
  have a: "\<not> response_ok 404" and b: "response_ok 200"
    by (simp_all add: response_ok_def)
  have n: "showNat 404 = ''404''" by code_simp
  from fetch_outcomes [of 404 "loaded [statusNotice]" "JsonRejected OtherValue"]
       fetch_outcomes [of 200 "loaded [statusNotice]" _ "''Unexpected token <''"] a b n
  show ?thesis by simp
qed

text \<open>
  C10. When an attempt fails, because the request is rejected, or the status is outside
  200-299, or the body cannot be decoded, or the payload is \<^verbatim>\<open>null\<close>, the stored
  notices are the ones held before, the error is set, and \<^verbatim>\<open>isLoading\<close> is false.
\<close>

theorem failed_fetch_keeps_issues:
  assumes "outcome = FetchRejected t
           \<or> (outcome = FetchResolved st payload \<and> \<not> response_ok st)
           \<or> outcome = FetchResolved st (JsonRejected t)
           \<or> outcome = FetchResolved st (JsonResolved JsonNull)"
  shows "issues (fetchStatusIssues s outcome) = issues s
         \<and> error (fetchStatusIssues s outcome) \<noteq> None
         \<and> \<not> isLoading (fetchStatusIssues s outcome)"
proof -
  from assms have "\<exists>e. tryFetch outcome = Inl e"
    by (elim disjE conjE) (simp_all add: tryFetch_def)
  then obtain e where "tryFetch outcome = Inl e" ..
  then show ?thesis
    by (simp add: fetchStatusIssues_Inl)
qed

theorem failed_fetch_keeps_issues_witness:
  "issues (fetchStatusIssues (loaded [statusNotice]) (FetchRejected (ErrorObject ''Failed to fetch'')))
     = [statusNotice]
   \<and> error (fetchStatusIssues (loaded [statusNotice]) (FetchRejected (ErrorObject ''Failed to fetch'')))
     = Some ''Failed to fetch''
   \<and> \<not> isLoading (fetchStatusIssues (loaded [statusNotice]) (FetchResolved 503 (JsonRejected OtherValue)))
   \<and> issues (fetchStatusIssues (loaded [statusNotice]) (FetchResolved 503 (JsonRejected OtherValue)))
     = [statusNotice]"
proof -
  have r: "\<not> response_ok 503" by (simp add: response_ok_def)
  have e: "error (fetchStatusIssues (loaded [statusNotice]) (FetchRejected (ErrorObject ''Failed to fetch'')))
     = Some ''Failed to fetch''"
    by (simp add: fetchStatusIssues_def tryFetch_def)
  have i: "issues (loaded [statusNotice]) = [statusNotice]" by (simp add: loaded_def)
  from failed_fetch_keeps_issues [of "FetchRejected (ErrorObject ''Failed to fetch'')"
         "ErrorObject ''Failed to fetch''" _ _ "loaded [statusNotice]", OF disjI1 [OF refl]]
       failed_fetch_keeps_issues [of "FetchResolved 503 (JsonRejected OtherValue)" _ 503
         "JsonRejected OtherValue" "loaded [statusNotice]"] r e i
  show ?thesis by simp
qed

end
